theory Spec2Isabelle
  imports Main
begin

section \<open>The chat store of \<^verbatim>\<open>frontend/src/stores/useChatStore.ts\<close>\<close>

text \<open>
  The store is a zustand store: one record of state, and actions that replace some of its
  fields through \<^verbatim>\<open>set\<close>. Each action is modelled as a function from the state before
  to the state after. An \<^verbatim>\<open>async\<close> action is split at its \<^verbatim>\<open>await\<close>: the part before
  it, and the part after it, which takes the outcome of the request and runs on the state
  of that later moment (other handlers may have run in between). The follow actions
  (\<^verbatim>\<open>sendFollowRequest\<close>, \<^verbatim>\<open>acceptFollowRequest\<close>, \<^verbatim>\<open>rejectFollowRequest\<close>,
  \<^verbatim>\<open>unfollowUser\<close>) write no field themselves and are left out.
\<close>

subsection \<open>Data\<close>

text \<open>
  Modelled from the spec: the declarations of \<^verbatim>\<open>User\<close> and \<^verbatim>\<open>Message\<close> are imported
  from \<^verbatim>\<open>@/types\<close>, which is not among the sources. The records hold the fields the store
  reads: \<^verbatim>\<open>clerkId\<close>, \<^verbatim>\<open>fullName\<close>, \<^verbatim>\<open>imageUrl\<close> of a user, and \<^verbatim>\<open>_id\<close> (here
  \<open>message_id\<close>), \<^verbatim>\<open>senderId\<close>, \<^verbatim>\<open>receiverId\<close>, \<^verbatim>\<open>content\<close>, \<^verbatim>\<open>createdAt\<close> of a
  message.
\<close>

record user =
  clerkId :: string
  fullName :: string
  imageUrl :: string

record message =
  message_id :: string
  senderId :: string
  receiverId :: string
  content :: string
  createdAt :: string

datatype notification_type =
  Message | Follow_request | Follow_accepted | Follow_rejected | Follow_back_request

text \<open>
  The interface \<^verbatim>\<open>Notification\<close>. Its fields \<^verbatim>\<open>id\<close>, \<^verbatim>\<open>senderId\<close>, \<^verbatim>\<open>content\<close> and
  \<^verbatim>\<open>type\<close> carry the prefix \<open>notif_\<close>, since a message has fields of the same names.
\<close>

record notification =
  notif_id :: string
  notif_senderId :: string
  senderName :: string
  senderImageUrl :: string
  notif_content :: string
  timestamp :: string
  isRead :: bool
  notif_type :: notification_type

text \<open>
  \<^verbatim>\<open>new Date(createdAt).getTime()\<close> is a number of milliseconds, or \<^verbatim>\<open>NaN\<close> when the
  string is not a date. The parsing itself belongs to the language; every handler that
  calls it takes it as the parameter \<open>getTime\<close>.
\<close>

datatype jstime = NaN | Millis int

type_synonym date_getTime = "string \<Rightarrow> jstime"

text \<open>
  What a failed request throws, as far as the store reads it:
  \<^verbatim>\<open>error.response?.data?.message\<close> (absent when there is no response or no message in
  it) and \<^verbatim>\<open>error.message\<close>. Both are strings, as the type \<^verbatim>\<open>string | null\<close> of the
  field \<^verbatim>\<open>error\<close> that receives them says.
\<close>

record axios_error =
  response_data_message :: "string option"
  error_message :: string

text \<open>The outcome of an awaited request: \<open>Inl\<close> the error thrown, \<open>Inr\<close> the response data.\<close>

type_synonym 'a response = "axios_error + 'a"

datatype console_line =
  Console_log string string
| Console_error string axios_error

subsection \<open>The event channel\<close>

text \<open>
  The socket is the client of an external library. It is modelled as far as the store
  uses it: \<^verbatim>\<open>auth\<close>, \<^verbatim>\<open>connect\<close>/\<^verbatim>\<open>disconnect\<close>, \<^verbatim>\<open>emit\<close> (the events sent, in
  order) and \<^verbatim>\<open>on\<close>, which adds a listener for an event name after those already
  registered and never replaces one. A listener is one of the seven closures that
  \<^verbatim>\<open>initSocket\<close> registers.
\<close>

datatype handler =
  On_users_online | On_activities | On_user_connected | On_user_disconnected
| On_receive_message | On_message_unsent | On_message_sent

datatype outbound =
  Emit_user_connected string
| Emit_send_message string string string

record socket_io =
  auth :: "string option"
  connected :: bool
  emitted :: "outbound list"
  listeners :: "(string \<times> handler) list"

datatype event =
  Users_online "string list"
| Activities "(string \<times> string) list"
| User_connected string
| User_disconnected string
| Receive_message message
| Message_unsent string
| Message_sent message

fun event_name :: "event \<Rightarrow> string" where
  "event_name (Users_online _) = ''users_online''"
| "event_name (Activities _) = ''activities''"
| "event_name (User_connected _) = ''user_connected''"
| "event_name (User_disconnected _) = ''user_disconnected''"
| "event_name (Receive_message _) = ''receive_message''"
| "event_name (Message_unsent _) = ''message_unsent''"
| "event_name (Message_sent _) = ''message_sent''"

subsection \<open>The state\<close>

text \<open>
  \<^verbatim>\<open>unreadNotificationsCount\<close> is a JavaScript number that only ever holds integers
  (it starts at 0 and changes by 1); it is an \<open>int\<close> here, exact below \<open>2 ^ 53\<close>.
  The field \<^verbatim>\<open>socket\<close> always refers to the one socket of the module.
\<close>

record chat_store =
  users :: "user list"
  isLoading :: bool
  error :: "string option"
  socket :: socket_io
  isConnected :: bool
  onlineUsers :: "string set"
  userActivities :: "string \<rightharpoonup> string"
  messages :: "message list"
  selectedUser :: "user option"
  notifications :: "notification list"
  unreadNotificationsCount :: int
  lastMessageTime :: "string \<rightharpoonup> jstime"
  replyTo :: "message option"

definition initial_socket :: socket_io where
  "initial_socket = \<lparr>auth = None, connected = False, emitted = [], listeners = []\<rparr>"

definition initial_store :: chat_store where
  "initial_store =
     \<lparr>users = [], isLoading = False, error = None, socket = initial_socket,
      isConnected = False, onlineUsers = {}, userActivities = Map.empty, messages = [],
      selectedUser = None, notifications = [], unreadNotificationsCount = 0,
      lastMessageTime = Map.empty, replyTo = None\<rparr>"

subsection \<open>Synchronous actions\<close>

definition setSelectedUser :: "user option \<Rightarrow> chat_store \<Rightarrow> chat_store" where
  "setSelectedUser u s = s\<lparr>selectedUser := u\<rparr>"

definition setReplyTo :: "message option \<Rightarrow> chat_store \<Rightarrow> chat_store" where
  "setReplyTo m s = s\<lparr>replyTo := m\<rparr>"

definition markNotificationAsRead :: "string \<Rightarrow> chat_store \<Rightarrow> chat_store" where
  "markNotificationAsRead notificationId s =
     s\<lparr>notifications :=
         map (\<lambda>n. if notif_id n = notificationId then n\<lparr>isRead := True\<rparr> else n)
           (notifications s),
       unreadNotificationsCount := max 0 (unreadNotificationsCount s - 1)\<rparr>"

definition dismissNotification :: "string \<Rightarrow> chat_store \<Rightarrow> chat_store" where
  "dismissNotification notificationId s =
     (let notification = find (\<lambda>n. notif_id n = notificationId) (notifications s);
          wasUnread = (case notification of None \<Rightarrow> False | Some n \<Rightarrow> \<not> isRead n)
      in s\<lparr>notifications :=
             filter (\<lambda>n. notif_id n \<noteq> notificationId) (notifications s),
           unreadNotificationsCount :=
             (if wasUnread then max 0 (unreadNotificationsCount s - 1)
              else unreadNotificationsCount s)\<rparr>)"

subsection \<open>Inbound event handlers\<close>

definition on_users_online :: "string list \<Rightarrow> chat_store \<Rightarrow> chat_store" where
  "on_users_online us s = s\<lparr>onlineUsers := set us\<rparr>"

text \<open>\<^verbatim>\<open>new Map(activities)\<close>: of two pairs with one key, the later one stays.\<close>

definition on_activities :: "(string \<times> string) list \<Rightarrow> chat_store \<Rightarrow> chat_store" where
  "on_activities activities s = s\<lparr>userActivities := map_of (rev activities)\<rparr>"

definition on_user_connected :: "string \<Rightarrow> chat_store \<Rightarrow> chat_store" where
  "on_user_connected userId s = s\<lparr>onlineUsers := insert userId (onlineUsers s)\<rparr>"

definition on_user_disconnected :: "string \<Rightarrow> chat_store \<Rightarrow> chat_store" where
  "on_user_disconnected userId s = s\<lparr>onlineUsers := onlineUsers s - {userId}\<rparr>"

definition message_notification :: "user \<Rightarrow> message \<Rightarrow> notification" where
  "message_notification sender m =
     \<lparr>notif_id = message_id m, notif_senderId = senderId m, senderName = fullName sender,
      senderImageUrl = imageUrl sender, notif_content = content m,
      timestamp = createdAt m, isRead = False, notif_type = Message\<rparr>"

definition on_receive_message :: "date_getTime \<Rightarrow> message \<Rightarrow> chat_store \<Rightarrow> chat_store" where
  "on_receive_message getTime m s =
     (let s1 = s\<lparr>messages := messages s @ [m],
                 lastMessageTime :=
                   (lastMessageTime s)(senderId m \<mapsto> getTime (createdAt m))\<rparr>
      in case find (\<lambda>u. clerkId u = senderId m) (users s1) of
           None \<Rightarrow> s1
         | Some sender \<Rightarrow>
             s1\<lparr>notifications := message_notification sender m # notifications s1,
                unreadNotificationsCount := unreadNotificationsCount s1 + 1\<rparr>)"

definition on_message_unsent :: "string \<Rightarrow> chat_store \<Rightarrow> chat_store" where
  "on_message_unsent messageId s =
     s\<lparr>messages := filter (\<lambda>msg. message_id msg \<noteq> messageId) (messages s)\<rparr>"

definition on_message_sent :: "date_getTime \<Rightarrow> message \<Rightarrow> chat_store \<Rightarrow> chat_store" where
  "on_message_sent getTime m s =
     s\<lparr>messages := messages s @ [m],
       lastMessageTime := (lastMessageTime s)(receiverId m \<mapsto> getTime (createdAt m))\<rparr>"

text \<open>
  A listener called with an event. A listener is only ever called with the events of the
  name it was registered for; the last equation is for the other pairs.
\<close>

fun run_handler :: "date_getTime \<Rightarrow> handler \<Rightarrow> event \<Rightarrow> chat_store \<Rightarrow> chat_store" where
  "run_handler g On_users_online (Users_online us) s = on_users_online us s"
| "run_handler g On_activities (Activities as) s = on_activities as s"
| "run_handler g On_user_connected (User_connected u) s = on_user_connected u s"
| "run_handler g On_user_disconnected (User_disconnected u) s = on_user_disconnected u s"
| "run_handler g On_receive_message (Receive_message m) s = on_receive_message g m s"
| "run_handler g On_message_unsent (Message_unsent i) s = on_message_unsent i s"
| "run_handler g On_message_sent (Message_sent m) s = on_message_sent g m s"
| "run_handler g _ _ s = s"

text \<open>
  An inbound event reaches every listener registered for its name, in the order of
  registration.
\<close>

definition deliver :: "date_getTime \<Rightarrow> event \<Rightarrow> chat_store \<Rightarrow> chat_store" where
  "deliver g e s =
     fold (\<lambda>(name, h) st. if name = event_name e then run_handler g h e st else st)
       (listeners (socket s)) s"

text \<open>The event handled once: what one registration of the handlers does with it.\<close>

fun handle_once :: "date_getTime \<Rightarrow> event \<Rightarrow> chat_store \<Rightarrow> chat_store" where
  "handle_once g (Users_online us) s = on_users_online us s"
| "handle_once g (Activities as) s = on_activities as s"
| "handle_once g (User_connected u) s = on_user_connected u s"
| "handle_once g (User_disconnected u) s = on_user_disconnected u s"
| "handle_once g (Receive_message m) s = on_receive_message g m s"
| "handle_once g (Message_unsent i) s = on_message_unsent i s"
| "handle_once g (Message_sent m) s = on_message_sent g m s"

subsection \<open>Connection lifecycle\<close>

text \<open>The calls of \<^verbatim>\<open>socket.on\<close> in \<^verbatim>\<open>initSocket\<close>, in their order.\<close>

definition inbound_handlers :: "(string \<times> handler) list" where
  "inbound_handlers =
     [(''users_online'', On_users_online),
      (''activities'', On_activities),
      (''user_connected'', On_user_connected),
      (''user_disconnected'', On_user_disconnected),
      (''receive_message'', On_receive_message),
      (''message_unsent'', On_message_unsent),
      (''message_sent'', On_message_sent)]"

definition initSocket :: "string \<Rightarrow> chat_store \<Rightarrow> chat_store \<times> console_line list" where
  "initSocket userId s =
     (if \<not> isConnected s then
        let sock = (socket s)\<lparr>auth := Some userId\<rparr>;
            sock = sock\<lparr>connected := True\<rparr>;
            sock = sock\<lparr>emitted := emitted sock @ [Emit_user_connected userId]\<rparr>;
            sock = sock\<lparr>listeners := listeners sock @ inbound_handlers\<rparr>
        in (s\<lparr>socket := sock, isConnected := True\<rparr>,
            [Console_log ''Initializing socket for userId:'' userId])
      else (s, []))"

definition disconnectSocket :: "chat_store \<Rightarrow> chat_store" where
  "disconnectSocket s =
     (if isConnected s then s\<lparr>socket := (socket s)\<lparr>connected := False\<rparr>, isConnected := False\<rparr>
      else s)"

text \<open>
  \<^verbatim>\<open>sendMessage\<close> returns early when the field \<^verbatim>\<open>socket\<close> is falsy, which it never is:
  the field holds the socket from the start and nothing assigns it.
\<close>

definition sendMessage :: "string \<Rightarrow> string \<Rightarrow> string \<Rightarrow> chat_store \<Rightarrow> chat_store" where
  "sendMessage receiverId' senderId' content' s =
     s\<lparr>socket := (socket s)\<lparr>emitted :=
          emitted (socket s) @ [Emit_send_message receiverId' senderId' content']\<rparr>\<rparr>"

subsection \<open>Requests\<close>

text \<open>
  \<^verbatim>\<open>error.response?.data?.message || error.message\<close>: the left operand unless it is
  absent or the empty string.
\<close>

definition error_text :: "axios_error \<Rightarrow> string" where
  "error_text e =
     (case response_data_message e of
        None \<Rightarrow> error_message e
      | Some m \<Rightarrow> if m = [] then error_message e else m)"

definition fetch_before_await :: "chat_store \<Rightarrow> chat_store" where
  "fetch_before_await s = s\<lparr>isLoading := True, error := None\<rparr>"

definition fetchUsers_after_await :: "user list response \<Rightarrow> chat_store \<Rightarrow> chat_store" where
  "fetchUsers_after_await r s =
     (case r of
        Inr data \<Rightarrow> s\<lparr>users := data\<rparr>
      | Inl e \<Rightarrow> s\<lparr>error := Some (error_text e)\<rparr>)\<lparr>isLoading := False\<rparr>"

definition fetchUsers :: "user list response \<Rightarrow> chat_store \<Rightarrow> chat_store" where
  "fetchUsers r s = fetchUsers_after_await r (fetch_before_await s)"

definition fetchMessages_after_await :: "message list response \<Rightarrow> chat_store \<Rightarrow> chat_store" where
  "fetchMessages_after_await r s =
     (case r of
        Inr data \<Rightarrow> s\<lparr>messages := data\<rparr>
      | Inl e \<Rightarrow> s\<lparr>error := Some (error_text e)\<rparr>)\<lparr>isLoading := False\<rparr>"

definition fetchMessages :: "string \<Rightarrow> message list response \<Rightarrow> chat_store \<Rightarrow> chat_store" where
  "fetchMessages userId r s = fetchMessages_after_await r (fetch_before_await s)"

definition searchUsers_after_await :: "user list response \<Rightarrow> chat_store \<Rightarrow> chat_store" where
  "searchUsers_after_await r s =
     (case r of
        Inr data \<Rightarrow> s\<lparr>users := data\<rparr>
      | Inl e \<Rightarrow> s\<lparr>error := Some (error_text e)\<rparr>)\<lparr>isLoading := False\<rparr>"

definition searchUsers :: "string \<Rightarrow> user list response \<Rightarrow> chat_store \<Rightarrow> chat_store" where
  "searchUsers query r s = searchUsers_after_await r (fetch_before_await s)"

text \<open>
  \<^verbatim>\<open>unsendMessage\<close> and \<^verbatim>\<open>sendReplyMessage\<close> touch the state only after their
  \<^verbatim>\<open>await\<close>; what they write to the console is returned beside the state.
\<close>

definition unsendMessage ::
  "string \<Rightarrow> unit response \<Rightarrow> chat_store \<Rightarrow> chat_store \<times> console_line list" where
  "unsendMessage messageId r s =
     (case r of
        Inr _ \<Rightarrow>
          (s\<lparr>messages := filter (\<lambda>msg. message_id msg \<noteq> messageId) (messages s)\<rparr>, [])
      | Inl e \<Rightarrow> (s, [Console_error ''Error unsending message:'' e]))"

definition sendReplyMessage ::
  "string \<Rightarrow> string \<Rightarrow> string option \<Rightarrow> message response \<Rightarrow> chat_store
    \<Rightarrow> chat_store \<times> console_line list" where
  "sendReplyMessage receiverId' content' replyToId r s =
     (case r of
        Inr newMessage \<Rightarrow> (s\<lparr>messages := messages s @ [newMessage], replyTo := None\<rparr>, [])
      | Inl e \<Rightarrow> (s, [Console_error ''Error sending reply message:'' e]))"

subsection \<open>Sequences of operations\<close>

text \<open>The count the store keeps, and the count of unread entries of a list.\<close>

definition unread_entries :: "notification list \<Rightarrow> int" where
  "unread_entries ns = int (length (filter (\<lambda>n. \<not> isRead n) ns))"

datatype notification_op =
  MarkNotificationAsRead string
| DismissNotification string
| ReceiveMessage message

fun apply_notification_op :: "date_getTime \<Rightarrow> notification_op \<Rightarrow> chat_store \<Rightarrow> chat_store" where
  "apply_notification_op g (MarkNotificationAsRead i) s = markNotificationAsRead i s"
| "apply_notification_op g (DismissNotification i) s = dismissNotification i s"
| "apply_notification_op g (ReceiveMessage m) s = on_receive_message g m s"

definition run_notification_ops ::
  "date_getTime \<Rightarrow> notification_op list \<Rightarrow> chat_store \<Rightarrow> chat_store" where
  "run_notification_ops g ops s = fold (apply_notification_op g) ops s"

text \<open>The operations that change the ledger, each request with its outcome.\<close>

datatype ledger_op =
  Op_receive_message message
| Op_message_sent message
| Op_message_unsent string
| Op_fetchMessages string "message list response"
| Op_sendReplyMessage string string "string option" "message response"
| Op_unsendMessage string "unit response"

fun apply_ledger_op :: "date_getTime \<Rightarrow> ledger_op \<Rightarrow> chat_store \<Rightarrow> chat_store" where
  "apply_ledger_op g (Op_receive_message m) s = on_receive_message g m s"
| "apply_ledger_op g (Op_message_sent m) s = on_message_sent g m s"
| "apply_ledger_op g (Op_message_unsent i) s = on_message_unsent i s"
| "apply_ledger_op g (Op_fetchMessages u r) s = fetchMessages u r s"
| "apply_ledger_op g (Op_sendReplyMessage rc c rp r) s = fst (sendReplyMessage rc c rp r s)"
| "apply_ledger_op g (Op_unsendMessage i r) s = fst (unsendMessage i r s)"

fun run_ledger_ops :: "date_getTime \<Rightarrow> ledger_op list \<Rightarrow> chat_store \<Rightarrow> chat_store" where
  "run_ledger_ops g [] s = s"
| "run_ledger_ops g (x # xs) s = run_ledger_ops g xs (apply_ledger_op g x s)"

definition ledger_ids :: "chat_store \<Rightarrow> string list" where
  "ledger_ids s = map message_id (messages s)"

text \<open>
  An operation brings no id twice: a message it appends has an id that is not in the
  ledger, and a list it fetches has pairwise distinct ids.
\<close>

fun brings_fresh_ids :: "ledger_op \<Rightarrow> chat_store \<Rightarrow> bool" where
  "brings_fresh_ids (Op_receive_message m) s = (message_id m \<notin> set (ledger_ids s))"
| "brings_fresh_ids (Op_message_sent m) s = (message_id m \<notin> set (ledger_ids s))"
| "brings_fresh_ids (Op_message_unsent i) s = True"
| "brings_fresh_ids (Op_fetchMessages u (Inr ms)) s = distinct (map message_id ms)"
| "brings_fresh_ids (Op_fetchMessages u (Inl e)) s = True"
| "brings_fresh_ids (Op_sendReplyMessage rc c rp (Inr m)) s =
     (message_id m \<notin> set (ledger_ids s))"
| "brings_fresh_ids (Op_sendReplyMessage rc c rp (Inl e)) s = True"
| "brings_fresh_ids (Op_unsendMessage i r) s = True"

fun all_fresh :: "date_getTime \<Rightarrow> ledger_op list \<Rightarrow> chat_store \<Rightarrow> bool" where
  "all_fresh g [] s = True"
| "all_fresh g (x # xs) s =
     (brings_fresh_ids x s \<and> all_fresh g xs (apply_ledger_op g x s))"

subsection \<open>Examples\<close>

definition user_bo :: user where
  "user_bo = \<lparr>clerkId = ''u2'', fullName = ''Bo'', imageUrl = ''bo.png''\<rparr>"

definition message_m1 :: message where
  "message_m1 =
     \<lparr>message_id = ''m1'', senderId = ''u2'', receiverId = ''u1'', content = ''hi'',
      createdAt = ''T''\<rparr>"

definition message_m2 :: message where
  "message_m2 =
     \<lparr>message_id = ''m2'', senderId = ''u2'', receiverId = ''u1'', content = ''ho'',
      createdAt = ''T''\<rparr>"

definition store_with_bo :: chat_store where
  "store_with_bo = initial_store\<lparr>users := [user_bo]\<rparr>"

definition getTime_example :: date_getTime where
  "getTime_example t = (if t = ''T'' then Millis 1000 else NaN)"

text \<open>Two messages received from a sender of the directory; then the first one read.\<close>

definition store_two_unread :: chat_store where
  "store_two_unread =
     on_receive_message getTime_example message_m2
       (on_receive_message getTime_example message_m1 store_with_bo)"

definition store_one_read :: chat_store where
  "store_one_read = markNotificationAsRead ''m1'' store_two_unread"

text \<open>A store that was connected once and disconnected again.\<close>

definition store_reconnected :: chat_store where
  "store_reconnected = disconnectSocket (fst (initSocket ''u1'' store_with_bo))"

section \<open>Properties\<close>

lemmas example_defs =
  store_one_read_def store_two_unread_def store_with_bo_def initial_store_def
  initial_socket_def message_m1_def message_m2_def user_bo_def getTime_example_def

subsection \<open>Lists of notifications\<close>

lemma unread_entries_nonneg: "0 \<le> unread_entries ns"
  by (simp add: unread_entries_def)

lemma map_mark_unchanged:
  "(\<And>n. n \<in> set ns \<Longrightarrow> notif_id n = i \<Longrightarrow> isRead n) \<Longrightarrow>
   map (\<lambda>n. if notif_id n = i then n\<lparr>isRead := True\<rparr> else n) ns = ns"
  by (induction ns) auto

lemma filter_other_ids_unchanged:
  "i \<notin> notif_id ` set ns \<Longrightarrow> filter (\<lambda>n. notif_id n \<noteq> i) ns = ns"
  by (induction ns) auto

lemma find_id_None: "i \<notin> notif_id ` set ns \<Longrightarrow> find (\<lambda>n. notif_id n = i) ns = None"
  by (induction ns) auto

lemma find_id_all_read:
  "\<forall>n \<in> set ns. notif_id n = i \<longrightarrow> isRead n \<Longrightarrow>
   find (\<lambda>n. notif_id n = i) ns = Some n \<Longrightarrow> isRead n"
  by (induction ns) (auto split: if_splits)

lemma find_id_all_unread:
  "\<forall>n \<in> set ns. notif_id n = i \<longrightarrow> \<not> isRead n \<Longrightarrow> \<exists>n \<in> set ns. notif_id n = i \<Longrightarrow>
   \<exists>n. find (\<lambda>n. notif_id n = i) ns = Some n \<and> \<not> isRead n"
  by (induction ns) (auto split: if_splits)

lemma find_sender_Some:
  "i \<in> clerkId ` set us \<Longrightarrow> \<exists>u. find (\<lambda>u. clerkId u = i) us = Some u"
  by (induction us) auto

lemma find_sender_None:
  "i \<notin> clerkId ` set us \<Longrightarrow> find (\<lambda>u. clerkId u = i) us = None"
  by (induction us) auto

subsection \<open>The notification aggregator\<close>

lemma dismiss_count:
  "unreadNotificationsCount (dismissNotification i s) =
     (if (\<exists>n. find (\<lambda>n. notif_id n = i) (notifications s) = Some n \<and> \<not> isRead n)
      then max 0 (unreadNotificationsCount s - 1) else unreadNotificationsCount s)"
  by (auto simp: dismissNotification_def Let_def split: option.splits)

lemma messages_on_receive_message:
  "messages (on_receive_message g m s) = messages s @ [m]"
  by (simp add: on_receive_message_def Let_def split: option.splits)

lemma lastMessageTime_on_receive_message:
  "lastMessageTime (on_receive_message g m s) =
     (lastMessageTime s)(senderId m \<mapsto> g (createdAt m))"
  by (simp add: on_receive_message_def Let_def split: option.splits)

lemma on_receive_message_found:
  "find (\<lambda>u. clerkId u = senderId m) (users s) = Some sender \<Longrightarrow>
   notifications (on_receive_message g m s) = message_notification sender m # notifications s \<and>
   unreadNotificationsCount (on_receive_message g m s) = unreadNotificationsCount s + 1"
  by (simp add: on_receive_message_def Let_def)

lemma on_receive_message_not_found:
  "find (\<lambda>u. clerkId u = senderId m) (users s) = None \<Longrightarrow>
   notifications (on_receive_message g m s) = notifications s \<and>
   unreadNotificationsCount (on_receive_message g m s) = unreadNotificationsCount s"
  by (simp add: on_receive_message_def Let_def)

text \<open>
  C2. For every state and every \<^verbatim>\<open>receive_message\<close> event the handler appends the
  message to the ledger and sets \<^verbatim>\<open>lastMessageTime[senderId]\<close> to the time of the
  message's \<^verbatim>\<open>createdAt\<close>. If the sender's id is in the directory, it prepends exactly
  one notification, whose id is the message's id, of type \<^verbatim>\<open>message\<close> and unread, and
  the unread count grows by exactly one. If the sender is not in the directory, the
  notifications and the unread count stay as they are.
\<close>

theorem receive_message_effect:
  "messages (on_receive_message g m s) = messages s @ [m] \<and>
   lastMessageTime (on_receive_message g m s) =
     (lastMessageTime s)(senderId m \<mapsto> g (createdAt m)) \<and>
   (senderId m \<in> clerkId ` set (users s) \<longrightarrow>
      (\<exists>sender. find (\<lambda>u. clerkId u = senderId m) (users s) = Some sender \<and>
         notifications (on_receive_message g m s) =
           message_notification sender m # notifications s) \<and>
      (\<exists>n. notifications (on_receive_message g m s) = n # notifications s \<and>
         notif_id n = message_id m \<and> notif_type n = Message \<and> \<not> isRead n) \<and>
      unreadNotificationsCount (on_receive_message g m s) = unreadNotificationsCount s + 1) \<and>
   (senderId m \<notin> clerkId ` set (users s) \<longrightarrow>
      notifications (on_receive_message g m s) = notifications s \<and>
      unreadNotificationsCount (on_receive_message g m s) = unreadNotificationsCount s)"
proof (intro conjI impI)
  show "messages (on_receive_message g m s) = messages s @ [m]"
    by (rule messages_on_receive_message)
  show "lastMessageTime (on_receive_message g m s) =
     (lastMessageTime s)(senderId m \<mapsto> g (createdAt m))"
    by (rule lastMessageTime_on_receive_message)
next
  assume "senderId m \<in> clerkId ` set (users s)"
  then obtain sender where f: "find (\<lambda>u. clerkId u = senderId m) (users s) = Some sender"
    using find_sender_Some by blast
  note r = on_receive_message_found [OF f, of g]
  show "\<exists>sender. find (\<lambda>u. clerkId u = senderId m) (users s) = Some sender \<and>
         notifications (on_receive_message g m s) =
           message_notification sender m # notifications s"
    using f r by blast
  show "\<exists>n. notifications (on_receive_message g m s) = n # notifications s \<and>
         notif_id n = message_id m \<and> notif_type n = Message \<and> \<not> isRead n"
    using r by (simp add: message_notification_def)
  show "unreadNotificationsCount (on_receive_message g m s) = unreadNotificationsCount s + 1"
    using r by simp
next
  assume "senderId m \<notin> clerkId ` set (users s)"
  then have f: "find (\<lambda>u. clerkId u = senderId m) (users s) = None"
    by (rule find_sender_None)
  note r = on_receive_message_not_found [OF f, of g]
  show "notifications (on_receive_message g m s) = notifications s"
    using r by simp
  show "unreadNotificationsCount (on_receive_message g m s) = unreadNotificationsCount s"
    using r by simp
qed

text \<open>
  The scenario of the specification: the directory holds Bo (\<open>u2\<close>) and \<open>m1\<close> arrives
  from \<open>u2\<close>; and the same message arriving while the directory is empty.
\<close>

theorem receive_message_effect_witness:
  "messages (on_receive_message getTime_example message_m1 store_with_bo) = [message_m1] \<and>
   lastMessageTime (on_receive_message getTime_example message_m1 store_with_bo) ''u2'' =
     Some (Millis 1000) \<and>
   notifications (on_receive_message getTime_example message_m1 store_with_bo) =
     [\<lparr>notif_id = ''m1'', notif_senderId = ''u2'', senderName = ''Bo'',
       senderImageUrl = ''bo.png'', notif_content = ''hi'', timestamp = ''T'',
       isRead = False, notif_type = Message\<rparr>] \<and>
   unreadNotificationsCount (on_receive_message getTime_example message_m1 store_with_bo) = 1 \<and>
   notifications (on_receive_message getTime_example message_m1 initial_store) = [] \<and>
   unreadNotificationsCount (on_receive_message getTime_example message_m1 initial_store) = 0"
  using receive_message_effect [of getTime_example message_m1 store_with_bo]
    receive_message_effect [of getTime_example message_m1 initial_store]
  by (simp add: example_defs message_notification_def)

text \<open>
  C4. For every state and every notification id, \<^verbatim>\<open>dismissNotification(id)\<close> removes the
  entries of that id from the list. The unread count goes down by one, not below zero,
  exactly when the entry found for the id was unread: it stays as it is when no entry has
  the id or when the entries of the id are read, and in a state with a positive count it
  becomes one less if and only if the entry found was unread. No other field changes.
\<close>

theorem dismissNotification_effect:
  "notifications (dismissNotification i s) =
     filter (\<lambda>n. notif_id n \<noteq> i) (notifications s) \<and>
   unreadNotificationsCount (dismissNotification i s) =
     (if (\<exists>n. find (\<lambda>n. notif_id n = i) (notifications s) = Some n \<and> \<not> isRead n)
      then max 0 (unreadNotificationsCount s - 1) else unreadNotificationsCount s) \<and>
   (0 < unreadNotificationsCount s \<longrightarrow>
      (unreadNotificationsCount (dismissNotification i s) = unreadNotificationsCount s - 1
       \<longleftrightarrow> (\<exists>n. find (\<lambda>n. notif_id n = i) (notifications s) = Some n \<and> \<not> isRead n))) \<and>
   (i \<notin> notif_id ` set (notifications s) \<longrightarrow> dismissNotification i s = s) \<and>
   ((\<forall>n \<in> set (notifications s). notif_id n = i \<longrightarrow> isRead n) \<longrightarrow>
      unreadNotificationsCount (dismissNotification i s) = unreadNotificationsCount s) \<and>
   ((\<exists>n \<in> set (notifications s). notif_id n = i) \<and>
    (\<forall>n \<in> set (notifications s). notif_id n = i \<longrightarrow> \<not> isRead n) \<longrightarrow>
      unreadNotificationsCount (dismissNotification i s) =
        max 0 (unreadNotificationsCount s - 1)) \<and>
   dismissNotification i s =
     s\<lparr>notifications := notifications (dismissNotification i s),
       unreadNotificationsCount := unreadNotificationsCount (dismissNotification i s)\<rparr>"
proof (intro conjI impI)
  show "notifications (dismissNotification i s) =
     filter (\<lambda>n. notif_id n \<noteq> i) (notifications s)"
    by (simp add: dismissNotification_def Let_def)
  show "unreadNotificationsCount (dismissNotification i s) =
     (if (\<exists>n. find (\<lambda>n. notif_id n = i) (notifications s) = Some n \<and> \<not> isRead n)
      then max 0 (unreadNotificationsCount s - 1) else unreadNotificationsCount s)"
    by (rule dismiss_count)
  show "unreadNotificationsCount (dismissNotification i s) = unreadNotificationsCount s - 1
       \<longleftrightarrow> (\<exists>n. find (\<lambda>n. notif_id n = i) (notifications s) = Some n \<and> \<not> isRead n)"
    if "0 < unreadNotificationsCount s"
    using that by (simp add: dismiss_count)
  show "dismissNotification i s = s" if "i \<notin> notif_id ` set (notifications s)"
    using that
    by (simp add: dismissNotification_def Let_def find_id_None filter_other_ids_unchanged)
  show "unreadNotificationsCount (dismissNotification i s) = unreadNotificationsCount s"
    if "\<forall>n \<in> set (notifications s). notif_id n = i \<longrightarrow> isRead n"
    using find_id_all_read [OF that] by (auto simp: dismiss_count)
  show "unreadNotificationsCount (dismissNotification i s) =
      max 0 (unreadNotificationsCount s - 1)"
    if "(\<exists>n \<in> set (notifications s). notif_id n = i) \<and>
      (\<forall>n \<in> set (notifications s). notif_id n = i \<longrightarrow> \<not> isRead n)"
    using find_id_all_unread [of "notifications s" i] that by (simp add: dismiss_count)
  show "dismissNotification i s =
     s\<lparr>notifications := notifications (dismissNotification i s),
       unreadNotificationsCount := unreadNotificationsCount (dismissNotification i s)\<rparr>"
    by (simp add: dismissNotification_def Let_def)
qed

text \<open>
  In the store with \<open>m2\<close> unread and \<open>m1\<close> read (count 1): dismissing the unread \<open>m2\<close>
  leaves \<open>m1\<close> and count 0, dismissing the read \<open>m1\<close> leaves \<open>m2\<close> and count 1, and
  dismissing an id that no entry has changes nothing.
\<close>

theorem dismissNotification_effect_witness:
  "unreadNotificationsCount store_one_read = 1 \<and>
   map notif_id (notifications (dismissNotification ''m2'' store_one_read)) = [''m1''] \<and>
   unreadNotificationsCount (dismissNotification ''m2'' store_one_read) = 0 \<and>
   map notif_id (notifications (dismissNotification ''m1'' store_one_read)) = [''m2''] \<and>
   unreadNotificationsCount (dismissNotification ''m1'' store_one_read) = 1 \<and>
   dismissNotification ''m7'' store_one_read = store_one_read"
  using dismissNotification_effect [of "''m2''" store_one_read]
    dismissNotification_effect [of "''m1''" store_one_read]
    dismissNotification_effect [of "''m7''" store_one_read]
  by (simp add: example_defs on_receive_message_def markNotificationAsRead_def
      message_notification_def Let_def)

text \<open>
  C5. For every state and every notification id, \<^verbatim>\<open>markNotificationAsRead(id)\<close> sets
  \<^verbatim>\<open>isRead\<close> on the entries whose id matches, leaves the list as it is when no entry
  matches, and takes one from the unread count, not below zero. No other field changes.
\<close>

theorem markNotificationAsRead_effect:
  "notifications (markNotificationAsRead i s) =
     map (\<lambda>n. if notif_id n = i then n\<lparr>isRead := True\<rparr> else n) (notifications s) \<and>
   (i \<notin> notif_id ` set (notifications s) \<longrightarrow>
      notifications (markNotificationAsRead i s) = notifications s) \<and>
   unreadNotificationsCount (markNotificationAsRead i s) =
     max 0 (unreadNotificationsCount s - 1) \<and>
   markNotificationAsRead i s =
     s\<lparr>notifications := notifications (markNotificationAsRead i s),
       unreadNotificationsCount := unreadNotificationsCount (markNotificationAsRead i s)\<rparr>"
proof -
  have "i \<notin> notif_id ` set (notifications s) \<Longrightarrow>
    map (\<lambda>n. if notif_id n = i then n\<lparr>isRead := True\<rparr> else n) (notifications s) =
      notifications s"
    by (rule map_mark_unchanged) auto
  then show ?thesis
    by (simp add: markNotificationAsRead_def)
qed

theorem markNotificationAsRead_effect_witness:
  "map (\<lambda>n. (notif_id n, isRead n)) (notifications store_two_unread) =
     [(''m2'', False), (''m1'', False)] \<and>
   map (\<lambda>n. (notif_id n, isRead n)) (notifications (markNotificationAsRead ''m1'' store_two_unread)) =
     [(''m2'', False), (''m1'', True)] \<and>
   unreadNotificationsCount store_two_unread = 2 \<and>
   unreadNotificationsCount (markNotificationAsRead ''m1'' store_two_unread) = 1 \<and>
   notifications (markNotificationAsRead ''m7'' store_two_unread) =
     notifications store_two_unread \<and>
   unreadNotificationsCount (markNotificationAsRead ''m1'' initial_store) = 0"
  using markNotificationAsRead_effect [of "''m1''" store_two_unread]
    markNotificationAsRead_effect [of "''m7''" store_two_unread]
    markNotificationAsRead_effect [of "''m1''" initial_store]
  by (simp add: example_defs on_receive_message_def message_notification_def Let_def)

text \<open>
  C10. In a state whose unread count is positive, \<^verbatim>\<open>markNotificationAsRead(id)\<close> with
  an id whose entries are all read already, which includes an id that no entry has,
  leaves the list of notifications as it is and still takes one from the unread count:
  the decrement does not depend on an unread entry of that id.
\<close>

theorem markNotificationAsRead_unconditional:
  assumes "0 < unreadNotificationsCount s"
    and "\<forall>n \<in> set (notifications s). notif_id n = i \<longrightarrow> isRead n"
  shows "notifications (markNotificationAsRead i s) = notifications s \<and>
    unreadNotificationsCount (markNotificationAsRead i s) = unreadNotificationsCount s - 1"
proof -
  have "map (\<lambda>n. if notif_id n = i then n\<lparr>isRead := True\<rparr> else n) (notifications s) =
      notifications s"
    using assms(2) by (intro map_mark_unchanged) auto
  with assms(1) show ?thesis
    by (simp add: markNotificationAsRead_def)
qed

text \<open>
  In the store with \<open>m2\<close> unread and \<open>m1\<close> read, the count is 1; reading \<open>m1\<close> again, or
  reading \<open>m7\<close>, which is not in the list, brings it to 0 while \<open>m2\<close> is still unread.
\<close>

theorem markNotificationAsRead_unconditional_witness:
  "unreadNotificationsCount store_one_read = 1 \<and>
   notifications (markNotificationAsRead ''m1'' store_one_read) = notifications store_one_read \<and>
   unreadNotificationsCount (markNotificationAsRead ''m1'' store_one_read) = 0 \<and>
   notifications (markNotificationAsRead ''m7'' store_one_read) = notifications store_one_read \<and>
   unreadNotificationsCount (markNotificationAsRead ''m7'' store_one_read) = 0 \<and>
   unread_entries (notifications (markNotificationAsRead ''m7'' store_one_read)) = 1"
proof -
  have c: "unreadNotificationsCount store_one_read = 1"
    by (simp add: example_defs on_receive_message_def markNotificationAsRead_def Let_def)
  then have pos: "0 < unreadNotificationsCount store_one_read"
    by simp
  have read1: "\<forall>n \<in> set (notifications store_one_read). notif_id n = ''m1'' \<longrightarrow> isRead n"
    by (simp add: example_defs on_receive_message_def markNotificationAsRead_def
        message_notification_def Let_def)
  have read7: "\<forall>n \<in> set (notifications store_one_read). notif_id n = ''m7'' \<longrightarrow> isRead n"
    by (simp add: example_defs on_receive_message_def markNotificationAsRead_def
        message_notification_def Let_def)
  have u: "unread_entries (notifications store_one_read) = 1"
    by (simp add: unread_entries_def example_defs on_receive_message_def
        markNotificationAsRead_def message_notification_def Let_def)
  show ?thesis
    using c u markNotificationAsRead_unconditional [OF pos read1]
      markNotificationAsRead_unconditional [OF pos read7]
    by simp
qed

subsection \<open>The presence tracker\<close>

text \<open>
  C9. For every presence set and every user id, the \<^verbatim>\<open>user_connected\<close> handler adds the
  id to the set of online users and applying it twice gives what applying it once gives;
  the \<^verbatim>\<open>user_disconnected\<close> handler removes the id, applying it twice gives what
  applying it once gives, and it changes nothing when the id is not in the set. Neither
  handler changes another field of the state.
\<close>

theorem user_presence_handlers:
  "onlineUsers (on_user_connected u s) = insert u (onlineUsers s) \<and>
   on_user_connected u (on_user_connected u s) = on_user_connected u s \<and>
   onlineUsers (on_user_disconnected u s) = onlineUsers s - {u} \<and>
   on_user_disconnected u (on_user_disconnected u s) = on_user_disconnected u s \<and>
   (u \<notin> onlineUsers s \<longrightarrow> on_user_disconnected u s = s) \<and>
   on_user_connected u s = s\<lparr>onlineUsers := onlineUsers (on_user_connected u s)\<rparr> \<and>
   on_user_disconnected u s = s\<lparr>onlineUsers := onlineUsers (on_user_disconnected u s)\<rparr>"
  by (simp add: on_user_connected_def on_user_disconnected_def)

theorem user_presence_handlers_witness:
  "onlineUsers (on_user_connected ''u2'' (on_user_connected ''u2'' initial_store)) = {''u2''} \<and>
   onlineUsers (on_user_disconnected ''u2'' (on_user_connected ''u2'' initial_store)) = {} \<and>
   ''u9'' \<notin> onlineUsers initial_store \<and>
   on_user_disconnected ''u9'' initial_store = initial_store"
  using user_presence_handlers [of "''u2''" initial_store]
    user_presence_handlers [of "''u2''" "on_user_connected ''u2'' initial_store"]
    user_presence_handlers [of "''u9''" initial_store]
  by (simp add: initial_store_def)

subsection \<open>The connection lifecycle\<close>

lemma deliver_registered_once:
  "listeners (socket s) = inbound_handlers \<Longrightarrow> deliver g e s = handle_once g e s"
  by (cases e) (simp_all add: deliver_def inbound_handlers_def)

lemma initSocket_connected: "isConnected (fst (initSocket u s))"
  by (simp add: initSocket_def Let_def)

lemma initSocket_no_op: "isConnected s \<Longrightarrow> initSocket u s = (s, [])"
  by (simp add: initSocket_def)

lemma initSocket_listeners:
  "\<not> isConnected s \<Longrightarrow>
   listeners (socket (fst (initSocket u s))) = listeners (socket s) @ inbound_handlers"
  by (simp add: initSocket_def Let_def)

text \<open>
  What holds in every state: the second of two calls of \<^verbatim>\<open>initSocket\<close> finds
  \<^verbatim>\<open>isConnected\<close> true, changes nothing and logs nothing, and from a disconnected state
  the two calls add the inbound handlers once, one per event name. When no listener was
  registered before the first call, an inbound event delivered afterwards is handled
  exactly once.
\<close>

lemma initSocket_second_call:
  "initSocket u (fst (initSocket u s)) = (fst (initSocket u s), []) \<and>
   (\<not> isConnected s \<longrightarrow>
      listeners (socket (fst (initSocket u (fst (initSocket u s))))) =
        listeners (socket s) @ inbound_handlers) \<and>
   distinct (map fst inbound_handlers) \<and>
   (\<not> isConnected s \<and> listeners (socket s) = [] \<longrightarrow>
      deliver g e (fst (initSocket u (fst (initSocket u s)))) =
        handle_once g e (fst (initSocket u s)))"
proof (intro conjI impI)
  show twice: "initSocket u (fst (initSocket u s)) = (fst (initSocket u s), [])"
    by (rule initSocket_no_op) (rule initSocket_connected)
  show "listeners (socket (fst (initSocket u (fst (initSocket u s))))) =
      listeners (socket s) @ inbound_handlers" if "\<not> isConnected s"
    using that by (simp add: twice initSocket_listeners)
  show "distinct (map fst inbound_handlers)"
    by (simp add: inbound_handlers_def)
  show "deliver g e (fst (initSocket u (fst (initSocket u s)))) =
      handle_once g e (fst (initSocket u s))"
    if "\<not> isConnected s \<and> listeners (socket s) = []"
  proof -
    have "listeners (socket (fst (initSocket u s))) = inbound_handlers"
      using that by (simp add: initSocket_listeners)
    then show ?thesis
      by (simp add: twice deliver_registered_once)
  qed
qed

text \<open>
  From the initial store: after two calls, \<open>user_connected\<close> of \<open>u2\<close> gives the presence
  set \<open>{u2}\<close>, and \<open>receive_message\<close> of \<open>m1\<close> appends \<open>m1\<close> once.
\<close>

lemma initSocket_second_call_initial_store:
  "\<not> isConnected initial_store \<and> listeners (socket initial_store) = [] \<and>
   fst (initSocket ''u1'' (fst (initSocket ''u1'' initial_store))) =
     fst (initSocket ''u1'' initial_store) \<and>
   onlineUsers (deliver getTime_example (User_connected ''u2'')
     (fst (initSocket ''u1'' (fst (initSocket ''u1'' initial_store))))) = {''u2''} \<and>
   messages (deliver getTime_example (Receive_message message_m1)
     (fst (initSocket ''u1'' (fst (initSocket ''u1'' initial_store))))) = [message_m1]"
proof -
  have h: "\<not> isConnected initial_store \<and> listeners (socket initial_store) = []"
    by (simp add: initial_store_def initial_socket_def)
  have 1: "fst (initSocket ''u1'' (fst (initSocket ''u1'' initial_store))) =
     fst (initSocket ''u1'' initial_store)"
    using initSocket_second_call [of "''u1''" initial_store] by simp
  have 2: "deliver getTime_example (User_connected ''u2'')
      (fst (initSocket ''u1'' (fst (initSocket ''u1'' initial_store)))) =
    handle_once getTime_example (User_connected ''u2'') (fst (initSocket ''u1'' initial_store))"
    using initSocket_second_call [of "''u1''" initial_store] h by blast
  have 3: "deliver getTime_example (Receive_message message_m1)
      (fst (initSocket ''u1'' (fst (initSocket ''u1'' initial_store)))) =
    handle_once getTime_example (Receive_message message_m1) (fst (initSocket ''u1'' initial_store))"
    using initSocket_second_call [of "''u1''" initial_store] h by blast
  have 4: "onlineUsers (deliver getTime_example (User_connected ''u2'')
      (fst (initSocket ''u1'' (fst (initSocket ''u1'' initial_store))))) = {''u2''}"
    unfolding 2
    by (simp add: on_user_connected_def initSocket_def Let_def initial_store_def)
  have 5: "messages (deliver getTime_example (Receive_message message_m1)
      (fst (initSocket ''u1'' (fst (initSocket ''u1'' initial_store))))) = [message_m1]"
    unfolding 3
    by (simp add: messages_on_receive_message initSocket_def Let_def initial_store_def)
  show ?thesis
    using h 1 4 5 by blast
qed

text \<open>
  The guard is \<^verbatim>\<open>isConnected\<close> alone, and \<^verbatim>\<open>disconnectSocket\<close> removes no listener:
  after connect, disconnect and connect again every handler is registered twice, and a
  message received then is appended twice.
\<close>

lemma reconnect_registers_again:
  "messages (deliver g (Receive_message m)
     (fst (initSocket u (disconnectSocket (fst (initSocket u initial_store)))))) = [m, m]"
  by (simp add: deliver_def initSocket_def disconnectSocket_def Let_def inbound_handlers_def
      initial_store_def initial_socket_def messages_on_receive_message)

lemma store_reconnected_listeners:
  "\<not> isConnected store_reconnected \<and>
   listeners (socket store_reconnected) = inbound_handlers"
  by (simp add: store_reconnected_def disconnectSocket_def initSocket_def Let_def
      store_with_bo_def initial_store_def initial_socket_def)

text \<open>
  C6. Two calls of \<^verbatim>\<open>initSocket\<close> with the same user id and no disconnect between
  them should leave every inbound handler registered exactly once, so that an inbound
  event changes the state once. The second call is indeed without effect, but in a store
  that was connected and disconnected before, the first of the two calls registers the
  seven handlers beside the seven that \<^verbatim>\<open>disconnectSocket\<close> left on the socket: after
  the two calls every handler is registered twice, and one \<^verbatim>\<open>receive_message\<close> of
  \<open>m1\<close> appends \<open>m1\<close> twice and counts two unread notifications, where handling it
  once appends it once.
\<close>

theorem initSocket_twice_after_reconnect:
  "\<not> isConnected store_reconnected \<and>
   initSocket ''u1'' (fst (initSocket ''u1'' store_reconnected)) =
     (fst (initSocket ''u1'' store_reconnected), []) \<and>
   listeners (socket (fst (initSocket ''u1'' (fst (initSocket ''u1'' store_reconnected))))) =
     inbound_handlers @ inbound_handlers \<and>
   messages (deliver getTime_example (Receive_message message_m1)
     (fst (initSocket ''u1'' (fst (initSocket ''u1'' store_reconnected))))) =
     [message_m1, message_m1] \<and>
   unreadNotificationsCount (deliver getTime_example (Receive_message message_m1)
     (fst (initSocket ''u1'' (fst (initSocket ''u1'' store_reconnected))))) = 2 \<and>
   messages (handle_once getTime_example (Receive_message message_m1)
     (fst (initSocket ''u1'' (fst (initSocket ''u1'' store_reconnected))))) = [message_m1]"
proof -
  have twice: "initSocket ''u1'' (fst (initSocket ''u1'' store_reconnected)) =
      (fst (initSocket ''u1'' store_reconnected), [])"
    by (rule initSocket_no_op) (rule initSocket_connected)
  have ls: "listeners (socket (fst (initSocket ''u1'' store_reconnected))) =
      inbound_handlers @ inbound_handlers"
    using store_reconnected_listeners by (simp add: initSocket_listeners)
  have us: "users (fst (initSocket ''u1'' store_reconnected)) = [user_bo]"
    and ms: "messages (fst (initSocket ''u1'' store_reconnected)) = []"
    and ns: "notifications (fst (initSocket ''u1'' store_reconnected)) = []"
    and c: "unreadNotificationsCount (fst (initSocket ''u1'' store_reconnected)) = 0"
    by (simp_all add: store_reconnected_def disconnectSocket_def initSocket_def Let_def
        store_with_bo_def initial_store_def)
  have d: "deliver getTime_example (Receive_message message_m1)
      (fst (initSocket ''u1'' store_reconnected)) =
    on_receive_message getTime_example message_m1
      (on_receive_message getTime_example message_m1 (fst (initSocket ''u1'' store_reconnected)))"
    by (simp add: deliver_def ls inbound_handlers_def)
  have m2: "messages (deliver getTime_example (Receive_message message_m1)
      (fst (initSocket ''u1'' store_reconnected))) = [message_m1, message_m1]"
    by (simp add: d messages_on_receive_message ms)
  have u1: "users (on_receive_message getTime_example message_m1
      (fst (initSocket ''u1'' store_reconnected))) = [user_bo]"
    using us by (simp add: on_receive_message_def Let_def split: option.splits)
  have f1: "find (\<lambda>u. clerkId u = senderId message_m1)
      (users (fst (initSocket ''u1'' store_reconnected))) = Some user_bo"
    unfolding us by (simp add: user_bo_def message_m1_def)
  have f2: "find (\<lambda>u. clerkId u = senderId message_m1)
      (users (on_receive_message getTime_example message_m1
        (fst (initSocket ''u1'' store_reconnected)))) = Some user_bo"
    unfolding u1 by (simp add: user_bo_def message_m1_def)
  note r1 = on_receive_message_found [OF f1, of getTime_example, THEN conjunct2]
  note r2 = on_receive_message_found [OF f2, of getTime_example, THEN conjunct2]
  have c2: "unreadNotificationsCount (deliver getTime_example (Receive_message message_m1)
      (fst (initSocket ''u1'' store_reconnected))) = 2"
    unfolding d r2 r1 c by simp
  show ?thesis
    using store_reconnected_listeners
    by (simp add: twice ls m2 c2 messages_on_receive_message ms)
qed

subsection \<open>Requests that fail\<close>

lemma error_text_cases:
  "(response_data_message e = None \<longrightarrow> error_text e = error_message e) \<and>
   (response_data_message e = Some [] \<longrightarrow> error_text e = error_message e) \<and>
   (\<forall>m. response_data_message e = Some m \<and> m \<noteq> [] \<longrightarrow> error_text e = m)"
  by (simp add: error_text_def)

lemma filter_other_message_ids:
  "i \<notin> message_id ` set ms \<Longrightarrow> filter (\<lambda>msg. message_id msg \<noteq> i) ms = ms"
  by (induction ms) auto

text \<open>
  C7. For every state, when \<^verbatim>\<open>fetchUsers\<close>, \<^verbatim>\<open>searchUsers\<close> or \<^verbatim>\<open>fetchMessages\<close>
  fails, the cached data (the directory for the first two, the list of messages for the
  third) is what it was, and the error state holds a string: the message of the response
  when there is a non-empty one, the error's own message otherwise. When the request
  succeeds, the field is the fetched list. This holds for the part of the action after
  the \<^verbatim>\<open>await\<close>, on the state of that moment, and for the action run without
  interruption.
\<close>

theorem fetch_failure_and_success:
  "users (fetchUsers_after_await (Inl e) s) = users s \<and>
   users (fetchUsers (Inl e) s) = users s \<and>
   error (fetchUsers_after_await (Inl e) s) = Some (error_text e) \<and>
   error (fetchUsers (Inl e) s) = Some (error_text e) \<and>
   users (fetchUsers_after_await (Inr us) s) = us \<and>
   users (fetchUsers (Inr us) s) = us \<and>
   users (searchUsers_after_await (Inl e) s) = users s \<and>
   users (searchUsers q (Inl e) s) = users s \<and>
   error (searchUsers_after_await (Inl e) s) = Some (error_text e) \<and>
   error (searchUsers q (Inl e) s) = Some (error_text e) \<and>
   users (searchUsers_after_await (Inr us) s) = us \<and>
   users (searchUsers q (Inr us) s) = us \<and>
   messages (fetchMessages_after_await (Inl e) s) = messages s \<and>
   messages (fetchMessages p (Inl e) s) = messages s \<and>
   error (fetchMessages_after_await (Inl e) s) = Some (error_text e) \<and>
   error (fetchMessages p (Inl e) s) = Some (error_text e) \<and>
   messages (fetchMessages_after_await (Inr ms) s) = ms \<and>
   messages (fetchMessages p (Inr ms) s) = ms"
  by (simp add: fetchUsers_def fetchUsers_after_await_def searchUsers_def
      searchUsers_after_await_def fetchMessages_def fetchMessages_after_await_def
      fetch_before_await_def)

theorem fetch_failure_and_success_witness:
  "users (fetchUsers
     (Inl \<lparr>response_data_message = Some ''Unauthorized'', error_message = ''Request failed''\<rparr>)
     store_with_bo) = [user_bo] \<and>
   error (fetchUsers
     (Inl \<lparr>response_data_message = Some ''Unauthorized'', error_message = ''Request failed''\<rparr>)
     store_with_bo) = Some ''Unauthorized'' \<and>
   error (fetchMessages ''u2''
     (Inl \<lparr>response_data_message = None, error_message = ''Network Error''\<rparr>)
     (store_with_bo\<lparr>messages := [message_m1]\<rparr>)) = Some ''Network Error'' \<and>
   messages (fetchMessages ''u2''
     (Inl \<lparr>response_data_message = None, error_message = ''Network Error''\<rparr>)
     (store_with_bo\<lparr>messages := [message_m1]\<rparr>)) = [message_m1] \<and>
   users (searchUsers ''bo'' (Inr []) store_with_bo) = []"
  using fetch_failure_and_success [of
      "\<lparr>response_data_message = Some ''Unauthorized'', error_message = ''Request failed''\<rparr>"
      store_with_bo]
    fetch_failure_and_success [of
      "\<lparr>response_data_message = None, error_message = ''Network Error''\<rparr>"
      "store_with_bo\<lparr>messages := [message_m1]\<rparr>" _ _ "''u2''"]
    fetch_failure_and_success [of _ store_with_bo "[]" "''bo''"]
  by (simp add: error_text_def store_with_bo_def initial_store_def)

text \<open>
  C8. For every state and message id, the \<^verbatim>\<open>message_unsent\<close> handler and a successful
  \<^verbatim>\<open>unsendMessage\<close> remove the messages of that id from the ledger and nothing else,
  and change nothing when no message has the id. When the request of \<^verbatim>\<open>unsendMessage\<close>
  fails, the state, with its ledger and its error field, is unchanged and the error is
  written to the console.
\<close>

theorem unsend_removes_message:
  "messages (on_message_unsent i s) = filter (\<lambda>msg. message_id msg \<noteq> i) (messages s) \<and>
   i \<notin> set (ledger_ids (on_message_unsent i s)) \<and>
   (i \<notin> set (ledger_ids s) \<longrightarrow> on_message_unsent i s = s) \<and>
   on_message_unsent i s = s\<lparr>messages := messages (on_message_unsent i s)\<rparr> \<and>
   unsendMessage i (Inr ()) s = (on_message_unsent i s, []) \<and>
   unsendMessage i (Inl e) s = (s, [Console_error ''Error unsending message:'' e])"
  by (auto simp: on_message_unsent_def unsendMessage_def ledger_ids_def filter_other_message_ids)

text \<open>
  With \<open>m1\<close> and \<open>m2\<close> in the ledger: unsending \<open>m1\<close> leaves \<open>m2\<close>, unsending \<open>m7\<close>
  changes nothing, and a failed request leaves both messages and no error in the state.
\<close>

theorem unsend_removes_message_witness:
  "ledger_ids (on_message_unsent ''m1''
     (initial_store\<lparr>messages := [message_m1, message_m2]\<rparr>)) = [''m2''] \<and>
   on_message_unsent ''m7'' (initial_store\<lparr>messages := [message_m1, message_m2]\<rparr>) =
     initial_store\<lparr>messages := [message_m1, message_m2]\<rparr> \<and>
   ledger_ids (fst (unsendMessage ''m1'' (Inr ())
     (initial_store\<lparr>messages := [message_m1, message_m2]\<rparr>))) = [''m2''] \<and>
   error (fst (unsendMessage ''m1''
     (Inl \<lparr>response_data_message = None, error_message = ''Network Error''\<rparr>)
     (initial_store\<lparr>messages := [message_m1, message_m2]\<rparr>))) = None \<and>
   ledger_ids (fst (unsendMessage ''m1''
     (Inl \<lparr>response_data_message = None, error_message = ''Network Error''\<rparr>)
     (initial_store\<lparr>messages := [message_m1, message_m2]\<rparr>))) = [''m1'', ''m2'']"
  using unsend_removes_message [of "''m1''" "initial_store\<lparr>messages := [message_m1, message_m2]\<rparr>"
      "\<lparr>response_data_message = None, error_message = ''Network Error''\<rparr>"]
    unsend_removes_message [of "''m7''" "initial_store\<lparr>messages := [message_m1, message_m2]\<rparr>"]
  by (simp add: ledger_ids_def message_m1_def message_m2_def initial_store_def)

subsection \<open>The ids of the ledger\<close>

lemma apply_ledger_op_distinct:
  "distinct (ledger_ids s) \<Longrightarrow> brings_fresh_ids x s \<Longrightarrow>
   distinct (ledger_ids (apply_ledger_op g x s))"
proof (cases x)
  case (Op_fetchMessages u r)
  then show "distinct (ledger_ids s) \<Longrightarrow> brings_fresh_ids x s \<Longrightarrow> ?thesis"
    by (cases r)
      (simp_all add: ledger_ids_def fetchMessages_def fetchMessages_after_await_def
        fetch_before_await_def)
next
  case (Op_sendReplyMessage rc c rp r)
  then show "distinct (ledger_ids s) \<Longrightarrow> brings_fresh_ids x s \<Longrightarrow> ?thesis"
    by (cases r) (simp_all add: ledger_ids_def sendReplyMessage_def)
next
  case (Op_unsendMessage i r)
  then show "distinct (ledger_ids s) \<Longrightarrow> brings_fresh_ids x s \<Longrightarrow> ?thesis"
    by (cases r) (simp_all add: ledger_ids_def unsendMessage_def distinct_map_filter)
qed (simp_all add: ledger_ids_def messages_on_receive_message on_message_sent_def
    on_message_unsent_def distinct_map_filter)

lemma run_ledger_ops_distinct:
  "distinct (ledger_ids s) \<Longrightarrow> all_fresh g ops s \<Longrightarrow>
   distinct (ledger_ids (run_ledger_ops g ops s))"
  by (induction ops arbitrary: s) (simp_all add: apply_ledger_op_distinct)

text \<open>
  C3, as amended. The store never compares the id of an incoming message with the ids of
  the ledger, so the ids stay pairwise distinct only as far as the operations bring
  fresh ones: in every state reached from the initial one by a sequence of
  \<^verbatim>\<open>receive_message\<close>, \<^verbatim>\<open>message_sent\<close>, \<^verbatim>\<open>message_unsent\<close>, \<^verbatim>\<open>fetchMessages\<close>,
  \<^verbatim>\<open>sendReplyMessage\<close> and \<^verbatim>\<open>unsendMessage\<close> in which every appended message has an
  id that is not in the ledger at that moment and every fetched list has pairwise
  distinct ids, no two messages of the ledger share an id.
\<close>

theorem ledger_ids_unique_when_fresh:
  "all_fresh g ops initial_store \<Longrightarrow>
   distinct (ledger_ids (run_ledger_ops g ops initial_store))"
  by (rule run_ledger_ops_distinct) (simp add: ledger_ids_def initial_store_def)

theorem ledger_ids_unique_when_fresh_witness:
  "all_fresh getTime_example
     [Op_receive_message message_m1, Op_message_sent message_m2, Op_message_unsent ''m1'',
      Op_receive_message message_m1] initial_store \<and>
   ledger_ids (run_ledger_ops getTime_example
     [Op_receive_message message_m1, Op_message_sent message_m2, Op_message_unsent ''m1'',
      Op_receive_message message_m1] initial_store) = [''m2'', ''m1''] \<and>
   distinct (ledger_ids (run_ledger_ops getTime_example
     [Op_receive_message message_m1, Op_message_sent message_m2, Op_message_unsent ''m1'',
      Op_receive_message message_m1] initial_store))"
proof -
  have f: "all_fresh getTime_example
     [Op_receive_message message_m1, Op_message_sent message_m2, Op_message_unsent ''m1'',
      Op_receive_message message_m1] initial_store"
    by (simp add: ledger_ids_def messages_on_receive_message on_message_sent_def
        on_message_unsent_def initial_store_def message_m1_def message_m2_def)
  have i: "ledger_ids (run_ledger_ops getTime_example
     [Op_receive_message message_m1, Op_message_sent message_m2, Op_message_unsent ''m1'',
      Op_receive_message message_m1] initial_store) = [''m2'', ''m1'']"
    by (simp add: ledger_ids_def messages_on_receive_message on_message_sent_def
        on_message_unsent_def initial_store_def message_m1_def message_m2_def)
  show ?thesis
    using f i ledger_ids_unique_when_fresh [OF f] by simp
qed

text \<open>
  C3 as first stated, that the ids are unique in every reachable state, fails when one
  message is delivered twice: the ledger then holds it twice.
\<close>

theorem ledger_ids_not_unique:
  "\<not> distinct (ledger_ids (run_ledger_ops getTime_example
      [Op_receive_message message_m1, Op_receive_message message_m1] initial_store))"
  by (simp add: ledger_ids_def messages_on_receive_message initial_store_def)

subsection \<open>The unread count over sequences of operations\<close>

lemma markNotificationAsRead_nonneg:
  "0 \<le> unreadNotificationsCount (markNotificationAsRead i s)"
  by (simp add: markNotificationAsRead_def)

lemma apply_notification_op_nonneg:
  "0 \<le> unreadNotificationsCount s \<Longrightarrow>
   0 \<le> unreadNotificationsCount (apply_notification_op g x s)"
  by (cases x)
    (auto simp: markNotificationAsRead_def dismiss_count on_receive_message_def Let_def
      split: option.splits)

lemma run_notification_ops_nonneg:
  "0 \<le> unreadNotificationsCount s \<Longrightarrow>
   0 \<le> unreadNotificationsCount (run_notification_ops g ops s)"
  unfolding run_notification_ops_def
  by (induction ops arbitrary: s) (simp_all add: apply_notification_op_nonneg)

lemma on_receive_message_keeps_count_exact:
  "unreadNotificationsCount s = unread_entries (notifications s) \<Longrightarrow>
   unreadNotificationsCount (on_receive_message g m s) =
     unread_entries (notifications (on_receive_message g m s))"
  by (simp add: on_receive_message_def Let_def unread_entries_def message_notification_def
      split: option.splits)

lemma unread_entries_filter_distinct:
  "distinct (map notif_id ns) \<Longrightarrow>
   unread_entries (filter (\<lambda>n. notif_id n \<noteq> i) ns) =
     unread_entries ns -
       (if (\<exists>n. find (\<lambda>n. notif_id n = i) ns = Some n \<and> \<not> isRead n) then 1 else 0)"
proof (induction ns)
  case Nil
  then show ?case by (simp add: unread_entries_def)
next
  case (Cons a ns)
  show ?case
  proof (cases "notif_id a = i")
    case True
    with Cons.prems have "i \<notin> notif_id ` set ns" by auto
    then have "filter (\<lambda>n. notif_id n \<noteq> i) ns = ns"
      by (rule filter_other_ids_unchanged)
    with True show ?thesis by (simp add: unread_entries_def)
  next
    case False
    with Cons show ?thesis by (auto simp: unread_entries_def split: if_splits)
  qed
qed

lemma dismissNotification_keeps_count_exact:
  assumes "distinct (map notif_id (notifications s))"
    and "unreadNotificationsCount s = unread_entries (notifications s)"
  shows "unreadNotificationsCount (dismissNotification i s) =
     unread_entries (notifications (dismissNotification i s))"
proof -
  have n: "notifications (dismissNotification i s) =
      filter (\<lambda>n. notif_id n \<noteq> i) (notifications s)"
    by (simp add: dismissNotification_def Let_def)
  show ?thesis
  proof (cases "\<exists>n. find (\<lambda>n. notif_id n = i) (notifications s) = Some n \<and> \<not> isRead n")
    case True
    then have f: "unread_entries (filter (\<lambda>n. notif_id n \<noteq> i) (notifications s)) =
        unread_entries (notifications s) - 1"
      using unread_entries_filter_distinct [OF assms(1), of i] by simp
    moreover have "0 \<le> unread_entries (filter (\<lambda>n. notif_id n \<noteq> i) (notifications s))"
      by (rule unread_entries_nonneg)
    ultimately have "1 \<le> unread_entries (notifications s)"
      by simp
    with True f assms(2) show ?thesis
      by (simp add: n dismiss_count)
  next
    case False
    then have "unread_entries (filter (\<lambda>n. notif_id n \<noteq> i) (notifications s)) =
        unread_entries (notifications s)"
      using unread_entries_filter_distinct [OF assms(1), of i] by simp
    with False assms(2) show ?thesis
      by (auto simp: n dismiss_count)
  qed
qed

text \<open>
  Without distinct ids the equality is lost by \<^verbatim>\<open>dismissNotification\<close> as well: a
  message delivered twice gives two notifications of one id; dismissing the id removes
  both and takes one from the count.
\<close>

lemma dismiss_duplicate_ids_diverges:
  "unreadNotificationsCount (run_notification_ops getTime_example
     [ReceiveMessage message_m1, ReceiveMessage message_m1,
      DismissNotification ''m1''] store_with_bo) = 1 \<and>
   notifications (run_notification_ops getTime_example
     [ReceiveMessage message_m1, ReceiveMessage message_m1,
      DismissNotification ''m1''] store_with_bo) = []"
  by (simp add: run_notification_ops_def example_defs dismissNotification_def
      on_receive_message_def message_notification_def Let_def)

text \<open>
  C1. The unread count is never negative, and receiving a message keeps it equal to the
  number of unread entries; but the count does not always equal that number. After two
  messages from a sender of the directory, reading the first one twice brings the count
  to 0 while the second notification is still unread: \<^verbatim>\<open>markNotificationAsRead\<close>
  takes one from the count without looking for an unread entry of the id, which
  \<^verbatim>\<open>dismissNotification\<close> does look for.
\<close>

theorem unread_count_diverges:
  "unreadNotificationsCount (run_notification_ops getTime_example
     [ReceiveMessage message_m1, ReceiveMessage message_m2,
      MarkNotificationAsRead ''m1'', MarkNotificationAsRead ''m1''] store_with_bo) = 0 \<and>
   unread_entries (notifications (run_notification_ops getTime_example
     [ReceiveMessage message_m1, ReceiveMessage message_m2,
      MarkNotificationAsRead ''m1'', MarkNotificationAsRead ''m1''] store_with_bo)) = 1"
  by (simp add: run_notification_ops_def unread_entries_def example_defs
      on_receive_message_def markNotificationAsRead_def message_notification_def Let_def)

end
